theory Spec2Isabelle
  imports Main
begin

section \<open>Codes (package codes)\<close>

text \<open>
  \<^verbatim>\<open>type Code string\<close>: a code is any string; the nine constants are particular
  strings. A caller of \<^verbatim>\<open>New\<close> can pass any other string as a code.
\<close>

type_synonym Code = string

definition codes_InvalidArgument :: Code where
  "codes_InvalidArgument = ''invalid_argument''"

definition codes_NotFound :: Code where
  "codes_NotFound = ''not_found''"

definition codes_AlreadyExists :: Code where
  "codes_AlreadyExists = ''already_exists''"

definition codes_PermissionDenied :: Code where
  "codes_PermissionDenied = ''permission_denied''"

definition codes_ResourceExhausted :: Code where
  "codes_ResourceExhausted = ''resource_exhausted''"

definition codes_FailedPrecondition :: Code where
  "codes_FailedPrecondition = ''failed_precondition''"

definition codes_Unimplemented :: Code where
  "codes_Unimplemented = ''unimplemented''"

definition codes_Internal :: Code where
  "codes_Internal = ''internal''"

definition codes_Unauthenticated :: Code where
  "codes_Unauthenticated = ''unauthenticated''"

lemmas codes_defs =
  codes_InvalidArgument_def codes_NotFound_def codes_AlreadyExists_def
  codes_PermissionDenied_def codes_ResourceExhausted_def codes_FailedPrecondition_def
  codes_Unimplemented_def codes_Internal_def codes_Unauthenticated_def

definition known_codes :: "Code list" where
  "known_codes = [codes_InvalidArgument, codes_NotFound, codes_AlreadyExists,
     codes_PermissionDenied, codes_ResourceExhausted, codes_FailedPrecondition,
     codes_Unimplemented, codes_Internal, codes_Unauthenticated]"

section \<open>Log levels and the two default tables\<close>

text \<open>
  \<^verbatim>\<open>type logLevel int\<close> with the constants numbered by \<^verbatim>\<open>iota\<close>. The type is an
  integer type, so values other than the six constants exist.
\<close>

type_synonym logLevel = int

definition unsetLevel :: logLevel where "unsetLevel = 0"
definition debugLevel :: logLevel where "debugLevel = 1"
definition infoLevel :: logLevel where "infoLevel = 2"
definition warnLevel :: logLevel where "warnLevel = 3"
definition errorLevel :: logLevel where "errorLevel = 4"
definition panicLevel :: logLevel where "panicLevel = 5"

lemmas level_defs =
  unsetLevel_def debugLevel_def infoLevel_def warnLevel_def errorLevel_def panicLevel_def

definition defaultLevelForCode :: "Code \<rightharpoonup> logLevel" where
  "defaultLevelForCode = map_of
     [(codes_InvalidArgument, warnLevel),
      (codes_NotFound, warnLevel),
      (codes_AlreadyExists, warnLevel),
      (codes_PermissionDenied, warnLevel),
      (codes_ResourceExhausted, warnLevel),
      (codes_FailedPrecondition, warnLevel),
      (codes_Unimplemented, warnLevel),
      (codes_Internal, errorLevel),
      (codes_Unauthenticated, warnLevel)]"

definition defaultMessageForCode :: "Code \<rightharpoonup> string" where
  "defaultMessageForCode = map_of
     [(codes_InvalidArgument, ''invalid argument''),
      (codes_NotFound, ''not found''),
      (codes_AlreadyExists, ''already exists''),
      (codes_PermissionDenied, ''permission denied''),
      (codes_ResourceExhausted, ''resource exhausted''),
      (codes_FailedPrecondition, ''failed precondition''),
      (codes_Unimplemented, ''unimplemented''),
      (codes_Internal, ''internal error''),
      (codes_Unauthenticated, ''unauthenticated'')]"

text \<open>
  Indexing a Go map of strings with a key it does not hold yields the zero value, the
  empty string.
\<close>

definition index_string_map :: "('k \<rightharpoonup> string) \<Rightarrow> 'k \<Rightarrow> string" where
  "index_string_map m k = (case m k of None \<Rightarrow> [] | Some v \<Rightarrow> v)"

section \<open>Errors of the host language, values and log fields\<close>

text \<open>
  A non-nil value of the interface type \<^verbatim>\<open>error\<close> is either a \<^verbatim>\<open>*gqlerr.Error\<close>
  (a pointer, possibly the typed nil pointer) or an error of another type. Of the latter
  the program observes the dynamic type name (\<^verbatim>\<open>%T\<close>), the text of \<^verbatim>\<open>Error()\<close>,
  the identity of the instance (what \<^verbatim>\<open>==\<close> compares: the address for a pointer type,
  constant for a value type), whether the type is comparable, and what \<^verbatim>\<open>Unwrap()\<close>
  returns. Error types with \<^verbatim>\<open>Is\<close> or \<^verbatim>\<open>As\<close> methods of their own are not covered.
  The nil interface value is \<open>None\<close> of \<open>goerr option\<close>.
\<close>

datatype goerr =
    GqlErr "nat option"
  | Foreign (tyname: string) (errtext: string) (ident: nat) (comparable: bool)
      (wrapped: "goerr option")

text \<open>A value of type \<^verbatim>\<open>any\<close>, as far as \<^verbatim>\<open>zap.Any\<close> tells values apart.\<close>

datatype goval =
    VNil
  | VString string
  | VInt int
  | VError goerr
  | VOther string string

text \<open>The tags of \<^verbatim>\<open>zapcore.FieldType\<close> that the fields built here carry.\<close>

datatype FieldType =
    UnknownType | Int64Type | StringType | ReflectType | ErrorType | SkipType

record Field =
  Key :: string
  Type :: FieldType
  Integer :: int
  String :: string
  Interface :: goval

definition zap_String :: "string \<Rightarrow> string \<Rightarrow> Field" where
  "zap_String key val =
     \<lparr>Key = key, Type = StringType, Integer = 0, String = val, Interface = VNil\<rparr>"

definition zap_Int :: "string \<Rightarrow> int \<Rightarrow> Field" where
  "zap_Int key val =
     \<lparr>Key = key, Type = Int64Type, Integer = val, String = [], Interface = VNil\<rparr>"

definition zap_Skip :: Field where
  "zap_Skip = \<lparr>Key = [], Type = SkipType, Integer = 0, String = [], Interface = VNil\<rparr>"

definition zap_Reflect :: "string \<Rightarrow> goval \<Rightarrow> Field" where
  "zap_Reflect key val =
     \<lparr>Key = key, Type = ReflectType, Integer = 0, String = [], Interface = val\<rparr>"

definition zap_NamedError :: "string \<Rightarrow> goerr option \<Rightarrow> Field" where
  "zap_NamedError key err = (case err of
       None \<Rightarrow> zap_Skip
     | Some e \<Rightarrow>
         \<lparr>Key = key, Type = ErrorType, Integer = 0, String = [], Interface = VError e\<rparr>)"

definition zap_Error :: "goerr option \<Rightarrow> Field" where
  "zap_Error err = zap_NamedError ''error'' err"

text \<open>
  \<^verbatim>\<open>zap.Any\<close> chooses the field constructor by the dynamic type of the value: a string
  becomes a string field, an integer an integer field, an error a named error field, and
  a value of any other type (also nil) a reflected field.
\<close>

fun zap_Any :: "string \<Rightarrow> goval \<Rightarrow> Field" where
  "zap_Any key (VString s) = zap_String key s"
| "zap_Any key (VInt i) = zap_Int key i"
| "zap_Any key (VError e) = zap_NamedError key (Some e)"
| "zap_Any key v = zap_Reflect key v"

section \<open>Request paths (ast.Path) and contexts\<close>

datatype PathElement = PathName string | PathIndex int

type_synonym Path = "PathElement list"

fun digits :: "nat \<Rightarrow> string" where
  "digits n = (if n < 10 then [char_of (48 + n)]
               else digits (n div 10) @ [char_of (48 + n mod 10)])"

definition show_int :: "int \<Rightarrow> string" where
  "show_int i = (if i < 0 then CHR ''-'' # digits (nat (- i)) else digits (nat i))"

text \<open>
  \<^verbatim>\<open>Path.String\<close>: an index is written \<^verbatim>\<open>[i]\<close>, a name is written as it is, after
  a dot unless it is the first element.
\<close>

fun Path_String_from :: "nat \<Rightarrow> Path \<Rightarrow> string" where
  "Path_String_from i [] = []"
| "Path_String_from i (PathIndex v # rest) =
     (''['' @ show_int v @ '']'') @ Path_String_from (Suc i) rest"
| "Path_String_from i (PathName v # rest) =
     ((if i \<noteq> 0 then ''.'' else []) @ v) @ Path_String_from (Suc i) rest"

definition Path_String :: "Path \<Rightarrow> string" where
  "Path_String p = Path_String_from 0 p"

text \<open>
  Of a \<^verbatim>\<open>context.Context\<close> the program reads the path of the field being resolved,
  through \<^verbatim>\<open>graphql.GetPath\<close>, which gives the nil path for a context without one.
\<close>

datatype gocontext = Background | WithPath Path

fun graphql_GetPath :: "gocontext \<Rightarrow> Path" where
  "graphql_GetPath Background = []"
| "graphql_GetPath (WithPath p) = p"

section \<open>The Error struct and its store\<close>

record Error =
  code :: Code
  msg :: string
  path :: Path
  level :: logLevel
  clientMsg :: string
  fields' :: "Field list"
  errorID :: string

text \<open>
  Values of type \<^verbatim>\<open>*Error\<close> are addresses into a store of \<^verbatim>\<open>Error\<close> structs;
  \<open>None\<close> is the nil pointer. \<open>nxt\<close> is the first address not yet allocated.
\<close>

type_synonym ptr = "nat option"

record store =
  cells :: "nat \<Rightarrow> Error"
  nxt :: nat

datatype failure = NilDereference | Diverges

definition alloc :: "Error \<Rightarrow> store \<Rightarrow> ptr \<times> store" where
  "alloc e s = (Some (nxt s), s\<lparr>cells := (cells s)(nxt s := e), nxt := Suc (nxt s)\<rparr>)"

section \<open>Reading an Error\<close>

text \<open>
  \<^verbatim>\<open>err\<close>: the loop over the fields. A field is skipped unless its key is
  \<^verbatim>\<open>"error"\<close> and its type tag is \<^verbatim>\<open>ErrorType\<close>, and skipped again unless its
  payload is an error.
\<close>

fun err_loop :: "Field list \<Rightarrow> goerr option" where
  "err_loop [] = None"
| "err_loop (f # fs) =
     (if Key f \<noteq> ''error'' \<or> Type f \<noteq> ErrorType then err_loop fs
      else (case Interface f of VError errVal \<Rightarrow> Some errVal | _ \<Rightarrow> err_loop fs))"

definition Error_err :: "Error \<Rightarrow> goerr option" where
  "Error_err e = err_loop (fields' e)"

definition Error_extensions :: "Error \<Rightarrow> (string \<rightharpoonup> string)" where
  "Error_extensions e =
     (let ext = [''code'' \<mapsto> code e]
      in if errorID e \<noteq> [] then ext(''error_reason'' \<mapsto> errorID e) else ext)"

definition Error_logLevel :: "Error \<Rightarrow> logLevel" where
  "Error_logLevel e =
     (if level e \<noteq> unsetLevel then level e
      else (case defaultLevelForCode (code e) of
              None \<Rightarrow> errorLevel
            | Some l \<Rightarrow> l))"

definition Error_clientMessage :: "Error \<Rightarrow> string" where
  "Error_clientMessage e =
     (if clientMsg e \<noteq> [] then clientMsg e
      else index_string_map defaultMessageForCode (code e))"

record gqlerror =
  Message :: string
  Path :: Path
  Extensions :: "string \<rightharpoonup> string"

text \<open>\<^verbatim>\<open>toGQLError\<close> has a nil receiver check: the nil pointer gives the nil fragment.\<close>

definition Error_toGQLError :: "store \<Rightarrow> ptr \<Rightarrow> gqlerror option" where
  "Error_toGQLError s e = (case e of
       None \<Rightarrow> None
     | Some a \<Rightarrow>
         Some \<lparr>Message = Error_clientMessage (cells s a),
               Path = path (cells s a),
               Extensions = Error_extensions (cells s a)\<rparr>)"

section \<open>Rendering as text\<close>

text \<open>
  The verb \<^verbatim>\<open>%q\<close> writes a string as a double-quoted Go literal. Bytes below 128 are
  escaped as \<^verbatim>\<open>strconv.Quote\<close> does; a byte from 128 on is written as \<^verbatim>\<open>\x\<close> and
  two hexadecimal digits, which is what Go does with a byte that is not part of a valid
  UTF-8 sequence (multi-byte runes are not decoded here).
\<close>

definition hex_digit :: "nat \<Rightarrow> char" where
  "hex_digit n = ''0123456789abcdef'' ! n"

definition quote_byte :: "char \<Rightarrow> string" where
  "quote_byte c =
     (let n = (of_char c :: nat); bs = CHR 0x5C in
      if n = 0x22 \<or> n = 0x5C then [bs, c]
      else if 0x20 \<le> n \<and> n < 0x7F then [c]
      else if n = 7 then [bs, CHR ''a'']
      else if n = 8 then [bs, CHR ''b'']
      else if n = 12 then [bs, CHR ''f'']
      else if n = 10 then [bs, CHR ''n'']
      else if n = 13 then [bs, CHR ''r'']
      else if n = 9 then [bs, CHR ''t'']
      else if n = 11 then [bs, CHR ''v'']
      else [bs, CHR ''x'', hex_digit (n div 16), hex_digit (n mod 16)])"

definition go_quote :: "string \<Rightarrow> string" where
  "go_quote s = [CHR 0x22] @ concat (map quote_byte s) @ [CHR 0x22]"

text \<open>
  \<^verbatim>\<open>Error()\<close>: the empty string for the nil receiver, else the quoted code in brackets
  and the message, followed by the text of the cause when \<^verbatim>\<open>err\<close> finds one. The verb
  \<^verbatim>\<open>%v\<close> calls the cause's own \<^verbatim>\<open>Error()\<close>, which for a cause that is again a
  \<^verbatim>\<open>*Error\<close> is this method. The recursion goes through the store, so not returning
  is the value \<open>None\<close>.
\<close>

partial_function (option) Error_Error :: "store \<Rightarrow> ptr \<Rightarrow> string option" where
  "Error_Error s e = (case e of
       None \<Rightarrow> Some []
     | Some a \<Rightarrow>
         (case Error_err (cells s a) of
            None \<Rightarrow> Some (''['' @ go_quote (code (cells s a)) @ ''] '' @ msg (cells s a))
          | Some (Foreign ty tx i c w) \<Rightarrow>
              Some (''['' @ go_quote (code (cells s a)) @ ''] '' @ msg (cells s a)
                    @ '': '' @ tx)
          | Some (GqlErr q) \<Rightarrow>
              Option.bind (Error_Error s q) (\<lambda>t.
                Some (''['' @ go_quote (code (cells s a)) @ ''] '' @ msg (cells s a)
                      @ '': '' @ t))))"

declare Error_Error.simps [code]

text \<open>What \<^verbatim>\<open>err.Error()\<close> and \<^verbatim>\<open>%T\<close> give for a non-nil error of any type.\<close>

definition go_Error_text :: "store \<Rightarrow> goerr \<Rightarrow> string option" where
  "go_Error_text s er = (case er of
       GqlErr p \<Rightarrow> Error_Error s p
     | Foreign ty tx i c w \<Rightarrow> Some tx)"

definition go_typename :: "goerr \<Rightarrow> string" where
  "go_typename er = (case er of
       GqlErr p \<Rightarrow> ''*gqlerr.Error''
     | Foreign ty tx i c w \<Rightarrow> ty)"

section \<open>Decorations\<close>

text \<open>
  Each method writes one field through its receiver and returns the receiver. Writing
  through the nil pointer panics.
\<close>

definition WithMessage :: "string \<Rightarrow> ptr \<Rightarrow> store \<Rightarrow> failure + (ptr \<times> store)" where
  "WithMessage m e s = (case e of
       None \<Rightarrow> Inl NilDereference
     | Some a \<Rightarrow> Inr (e, s\<lparr>cells := (cells s)(a := (cells s a)\<lparr>clientMsg := m\<rparr>)\<rparr>))"

definition WithErrorID :: "string \<Rightarrow> ptr \<Rightarrow> store \<Rightarrow> failure + (ptr \<times> store)" where
  "WithErrorID errID e s = (case e of
       None \<Rightarrow> Inl NilDereference
     | Some a \<Rightarrow> Inr (e, s\<lparr>cells := (cells s)(a := (cells s a)\<lparr>errorID := errID\<rparr>)\<rparr>))"

definition set_level :: "logLevel \<Rightarrow> ptr \<Rightarrow> store \<Rightarrow> failure + (ptr \<times> store)" where
  "set_level l e s = (case e of
       None \<Rightarrow> Inl NilDereference
     | Some a \<Rightarrow> Inr (e, s\<lparr>cells := (cells s)(a := (cells s a)\<lparr>level := l\<rparr>)\<rparr>))"

definition AtDebug :: "ptr \<Rightarrow> store \<Rightarrow> failure + (ptr \<times> store)" where
  "AtDebug = set_level debugLevel"

definition AtInfo :: "ptr \<Rightarrow> store \<Rightarrow> failure + (ptr \<times> store)" where
  "AtInfo = set_level infoLevel"

definition AtWarn :: "ptr \<Rightarrow> store \<Rightarrow> failure + (ptr \<times> store)" where
  "AtWarn = set_level warnLevel"

definition AtError :: "ptr \<Rightarrow> store \<Rightarrow> failure + (ptr \<times> store)" where
  "AtError = set_level errorLevel"

definition AtPanic :: "ptr \<Rightarrow> store \<Rightarrow> failure + (ptr \<times> store)" where
  "AtPanic = set_level panicLevel"

section \<open>Constructors\<close>

definition New :: "gocontext \<Rightarrow> Code \<Rightarrow> string \<Rightarrow> Field list \<Rightarrow> store \<Rightarrow> ptr \<times> store" where
  "New ctx c m fs s =
     alloc \<lparr>code = c, msg = m, path = graphql_GetPath ctx, level = unsetLevel,
            clientMsg = [], fields' = fs, errorID = []\<rparr> s"

definition Internal :: "gocontext \<Rightarrow> string \<Rightarrow> Field list \<Rightarrow> store \<Rightarrow> ptr \<times> store" where
  "Internal ctx m fs = New ctx codes_Internal m fs"

definition InvalidArgument :: "gocontext \<Rightarrow> string \<Rightarrow> Field list \<Rightarrow> store \<Rightarrow> ptr \<times> store" where
  "InvalidArgument ctx m fs = New ctx codes_InvalidArgument m fs"

definition NotFound :: "gocontext \<Rightarrow> string \<Rightarrow> Field list \<Rightarrow> store \<Rightarrow> ptr \<times> store" where
  "NotFound ctx m fs = New ctx codes_NotFound m fs"

definition AlreadyExists :: "gocontext \<Rightarrow> string \<Rightarrow> Field list \<Rightarrow> store \<Rightarrow> ptr \<times> store" where
  "AlreadyExists ctx m fs = New ctx codes_AlreadyExists m fs"

definition PermissionDenied :: "gocontext \<Rightarrow> string \<Rightarrow> Field list \<Rightarrow> store \<Rightarrow> ptr \<times> store" where
  "PermissionDenied ctx m fs = New ctx codes_PermissionDenied m fs"

definition ResourceExhausted :: "gocontext \<Rightarrow> string \<Rightarrow> Field list \<Rightarrow> store \<Rightarrow> ptr \<times> store" where
  "ResourceExhausted ctx m fs = New ctx codes_ResourceExhausted m fs"

definition FailedPrecondition :: "gocontext \<Rightarrow> string \<Rightarrow> Field list \<Rightarrow> store \<Rightarrow> ptr \<times> store" where
  "FailedPrecondition ctx m fs = New ctx codes_FailedPrecondition m fs"

definition Unimplemented :: "gocontext \<Rightarrow> string \<Rightarrow> Field list \<Rightarrow> store \<Rightarrow> ptr \<times> store" where
  "Unimplemented ctx m fs = New ctx codes_Unimplemented m fs"

definition Unauthenticated :: "gocontext \<Rightarrow> string \<Rightarrow> Field list \<Rightarrow> store \<Rightarrow> ptr \<times> store" where
  "Unauthenticated ctx m fs = New ctx codes_Unauthenticated m fs"

text \<open>
  \<^verbatim>\<open>RecoverFunc\<close>: \<open>stack\<close> is the text \<^verbatim>\<open>debug.Stack()\<close> returns at the call. The
  result is the error interface value holding the pointer.
\<close>

definition RecoverFunc :: "string \<Rightarrow> gocontext \<Rightarrow> goval \<Rightarrow> store \<Rightarrow> failure + (goerr \<times> store)" where
  "RecoverFunc stack ctx v s =
     (let (e, s1) = Internal ctx stack [zap_Any ''recover'' v] s
      in case AtPanic e s1 of
           Inl f \<Rightarrow> Inl f
         | Inr (e', s2) \<Rightarrow> Inr (GqlErr e', s2))"

section \<open>errors.As and errors.Is\<close>

text \<open>
  \<^verbatim>\<open>errors.As\<close> with a target of type \<^verbatim>\<open>**Error\<close> walks the chain of \<^verbatim>\<open>Unwrap\<close> and
  stops at the first error whose dynamic type is \<^verbatim>\<open>*Error\<close>; the test is on the type,
  so the typed nil pointer is found too. \<^verbatim>\<open>*Error\<close> has no \<^verbatim>\<open>Unwrap\<close> method.
\<close>

fun go_Unwrap :: "goerr \<Rightarrow> goerr option" where
  "go_Unwrap (GqlErr p) = None"
| "go_Unwrap (Foreign ty tx i c w) = w"

fun errors_As :: "goerr \<Rightarrow> ptr option" where
  "errors_As (GqlErr p) = Some p"
| "errors_As (Foreign ty tx i c None) = None"
| "errors_As (Foreign ty tx i c (Some w)) = errors_As w"

fun go_comparable :: "goerr \<Rightarrow> bool" where
  "go_comparable (GqlErr p) = True"
| "go_comparable (Foreign ty tx i c w) = c"

text \<open>
  \<^verbatim>\<open>errors.Is\<close>: at each error of the chain, equality with the target when the
  target's type is comparable, then \<^verbatim>\<open>Unwrap\<close>. With the nil target the result is
  whether the error is nil.
\<close>

fun Is_loop :: "goerr \<Rightarrow> goerr \<Rightarrow> bool" where
  "Is_loop (GqlErr p) target = (GqlErr p = target)"
| "Is_loop (Foreign ty tx i c None) target =
     (go_comparable target \<and> Foreign ty tx i c None = target)"
| "Is_loop (Foreign ty tx i c (Some w)) target =
     ((go_comparable target \<and> Foreign ty tx i c (Some w) = target) \<or> Is_loop w target)"

definition errors_Is :: "goerr option \<Rightarrow> goerr option \<Rightarrow> bool" where
  "errors_Is err target = (case target of
       None \<Rightarrow> err = None
     | Some t \<Rightarrow> (case err of None \<Rightarrow> False | Some e \<Rightarrow> Is_loop e t))"

section \<open>The log sink and the presenter\<close>

text \<open>
  The logger is the sink the presenter writes to. An entry records the method that was
  called (by the level that method logs at), the message and the fields, as the observer
  of the tests does; what a sink does with an entry afterwards is not part of the program.
\<close>

datatype zapLevel = DebugLevel | InfoLevel | WarnLevel | ErrorLevel | DPanicLevel

record LoggedEntry =
  Level :: zapLevel
  LogMessage :: string
  LogContext :: "Field list"

type_synonym logger = "LoggedEntry list"

definition logFn_level :: "logLevel \<Rightarrow> zapLevel" where
  "logFn_level l =
     (if l = debugLevel then DebugLevel
      else if l = infoLevel then InfoLevel
      else if l = warnLevel then WarnLevel
      else if l = errorLevel then ErrorLevel
      else if l = panicLevel then DPanicLevel
      else ErrorLevel)"

text \<open>
  \<^verbatim>\<open>logError\<close> reads the level through the receiver first, so the nil pointer panics
  before anything is written. With a non-empty path string it assigns the extended slice
  to \<^verbatim>\<open>err.fields\<close>, a write to the struct in the store, and logs the fields it reads
  back.
\<close>

definition logError :: "logger \<Rightarrow> ptr \<Rightarrow> store \<Rightarrow> failure + (logger \<times> store)" where
  "logError lg err s = (case err of
       None \<Rightarrow> Inl NilDereference
     | Some a \<Rightarrow>
         (let e = cells s a;
              lvl = logFn_level (Error_logLevel e);
              p = Path_String (path e);
              e' = (if p \<noteq> [] then e\<lparr>fields' := zap_String ''gql_path'' p # fields' e\<rparr>
                    else e)
          in Inr (lg @ [\<lparr>Level = lvl, LogMessage = msg e', LogContext = fields' e'\<rparr>],
                  s\<lparr>cells := (cells s)(a := e')\<rparr>)))"

definition zeroError :: Error where
  "zeroError = \<lparr>code = [], msg = [], path = [], level = 0, clientMsg = [],
                fields' = [], errorID = []\<rparr>"

definition wrong_type_message :: string where
  "wrong_type_message = ''received error that was not of type *gqlerr.Error''"

text \<open>
  The function \<^verbatim>\<open>ErrorPresenter(logger)\<close> returns, applied to a context and an error.
  The result is the fragment, the sink and the store after the call, or the panic.
\<close>

definition ErrorPresenter ::
  "logger \<Rightarrow> gocontext \<Rightarrow> goerr option \<Rightarrow> store
     \<Rightarrow> failure + (gqlerror option \<times> logger \<times> store)" where
  "ErrorPresenter lg ctx err s = (case err of
       None \<Rightarrow> Inr (None, lg, s)
     | Some er \<Rightarrow>
         (let (e0, s0) = alloc zeroError s in
          case errors_As er of
            Some e \<Rightarrow>
              (case logError lg e s0 of
                 Inl f \<Rightarrow> Inl f
               | Inr (lg1, s1) \<Rightarrow> Inr (Error_toGQLError s1 e, lg1, s1))
          | None \<Rightarrow>
              (let lg1 = lg @ [\<lparr>Level = ErrorLevel, LogMessage = wrong_type_message,
                                LogContext = [zap_String ''type'' (go_typename er),
                                              zap_Error (Some er)]\<rparr>]
               in case go_Error_text s0 er of
                    None \<Rightarrow> Inl Diverges
                  | Some t \<Rightarrow>
                      (let (e1, s1) = Internal ctx t [zap_Error (Some er)] s0
                       in Inr (Error_toGQLError s1 e1, lg1, s1)))))"

section \<open>Methods called through a pointer, and example values\<close>

text \<open>
  \<^verbatim>\<open>logLevel\<close> and \<^verbatim>\<open>clientMessage\<close> read a field of the receiver at once, so a call
  on the nil pointer panics.
\<close>

definition logLevel_at :: "store \<Rightarrow> ptr \<Rightarrow> failure + logLevel" where
  "logLevel_at s e = (case e of
       None \<Rightarrow> Inl NilDereference
     | Some a \<Rightarrow> Inr (Error_logLevel (cells s a)))"

definition clientMessage_at :: "store \<Rightarrow> ptr \<Rightarrow> failure + string" where
  "clientMessage_at s e = (case e of
       None \<Rightarrow> Inl NilDereference
     | Some a \<Rightarrow> Inr (Error_clientMessage (cells s a)))"

definition empty_store :: store where
  "empty_store = \<lparr>cells = (\<lambda>a. zeroError), nxt = 0\<rparr>"

text \<open>An error built by \<^verbatim>\<open>New\<close> with a code that is none of the nine.\<close>

definition teapot :: "ptr \<times> store" where
  "teapot = New Background ''teapot'' ''boom'' [] empty_store"

section \<open>The default tables\<close>

lemma defaultLevelForCode_known:
  "c \<in> set known_codes \<Longrightarrow>
     defaultLevelForCode c = Some (if c = codes_Internal then errorLevel else warnLevel)"
  by (auto simp: known_codes_def defaultLevelForCode_def codes_defs)

lemma defaultLevelForCode_unknown:
  "c \<notin> set known_codes \<Longrightarrow> defaultLevelForCode c = None"
  by (simp add: known_codes_def defaultLevelForCode_def codes_defs)

lemma defaultMessageForCode_unknown:
  "c \<notin> set known_codes \<Longrightarrow> defaultMessageForCode c = None"
  by (simp add: known_codes_def defaultMessageForCode_def codes_defs)

lemma known_codes_mem:
  "codes_InvalidArgument \<in> set known_codes" "codes_NotFound \<in> set known_codes"
  "codes_AlreadyExists \<in> set known_codes" "codes_PermissionDenied \<in> set known_codes"
  "codes_ResourceExhausted \<in> set known_codes" "codes_FailedPrecondition \<in> set known_codes"
  "codes_Unimplemented \<in> set known_codes" "codes_Internal \<in> set known_codes"
  "codes_Unauthenticated \<in> set known_codes"
  by (simp_all add: known_codes_def)

lemma codes_not_Internal:
  "codes_InvalidArgument \<noteq> codes_Internal" "codes_NotFound \<noteq> codes_Internal"
  "codes_AlreadyExists \<noteq> codes_Internal" "codes_PermissionDenied \<noteq> codes_Internal"
  "codes_ResourceExhausted \<noteq> codes_Internal" "codes_FailedPrecondition \<noteq> codes_Internal"
  "codes_Unimplemented \<noteq> codes_Internal" "codes_Unauthenticated \<noteq> codes_Internal"
  by (simp_all add: codes_defs)

lemma logLevel_at_New:
  "logLevel_at (snd (New ctx c m fs s)) (fst (New ctx c m fs s)) =
     Inr (case defaultLevelForCode c of None \<Rightarrow> errorLevel | Some l \<Rightarrow> l)"
  by (simp add: New_def alloc_def logLevel_at_def Error_logLevel_def)

section \<open>Resolved severity\<close>

text \<open>
  C3. The value each of the nine constructors returns, not decorated, has as resolved
  severity the default of its code in the table: error for \<^verbatim>\<open>Internal\<close>, warn for the
  other eight. In general \<^verbatim>\<open>logLevel\<close> returns the level override when it is set;
  otherwise the table's default for a code of the table; otherwise, for a code outside
  the table, the error level.
\<close>

theorem resolved_severity:
  "logLevel_at (snd (InvalidArgument ctx m fs s)) (fst (InvalidArgument ctx m fs s))
     = Inr warnLevel
   \<and> logLevel_at (snd (NotFound ctx m fs s)) (fst (NotFound ctx m fs s)) = Inr warnLevel
   \<and> logLevel_at (snd (AlreadyExists ctx m fs s)) (fst (AlreadyExists ctx m fs s))
     = Inr warnLevel
   \<and> logLevel_at (snd (PermissionDenied ctx m fs s)) (fst (PermissionDenied ctx m fs s))
     = Inr warnLevel
   \<and> logLevel_at (snd (ResourceExhausted ctx m fs s)) (fst (ResourceExhausted ctx m fs s))
     = Inr warnLevel
   \<and> logLevel_at (snd (FailedPrecondition ctx m fs s)) (fst (FailedPrecondition ctx m fs s))
     = Inr warnLevel
   \<and> logLevel_at (snd (Unimplemented ctx m fs s)) (fst (Unimplemented ctx m fs s))
     = Inr warnLevel
   \<and> logLevel_at (snd (Internal ctx m fs s)) (fst (Internal ctx m fs s)) = Inr errorLevel
   \<and> logLevel_at (snd (Unauthenticated ctx m fs s)) (fst (Unauthenticated ctx m fs s))
     = Inr warnLevel
   \<and> (level e \<noteq> unsetLevel \<longrightarrow> Error_logLevel e = level e)
   \<and> (level e = unsetLevel \<and> code e \<in> set known_codes \<longrightarrow>
        defaultLevelForCode (code e)
          = Some (if code e = codes_Internal then errorLevel else warnLevel)
        \<and> Error_logLevel e = (if code e = codes_Internal then errorLevel else warnLevel))
   \<and> (level e = unsetLevel \<and> code e \<notin> set known_codes \<longrightarrow>
        defaultLevelForCode (code e) = None \<and> Error_logLevel e = errorLevel)"
proof -
  have known: "\<And>c. c \<in> set known_codes \<Longrightarrow>
      logLevel_at (snd (New ctx c m fs s)) (fst (New ctx c m fs s)) =
        Inr (if c = codes_Internal then errorLevel else warnLevel)"
    by (simp add: logLevel_at_New defaultLevelForCode_known)
  note m = known_codes_mem
  show ?thesis
    using known[OF m(1)] known[OF m(2)] known[OF m(3)] known[OF m(4)] known[OF m(5)]
      known[OF m(6)] known[OF m(7)] known[OF m(8)] known[OF m(9)] codes_not_Internal
    by (simp add: InvalidArgument_def NotFound_def AlreadyExists_def PermissionDenied_def
        ResourceExhausted_def FailedPrecondition_def Unimplemented_def Internal_def
        Unauthenticated_def Error_logLevel_def defaultLevelForCode_known
        defaultLevelForCode_unknown)
qed

theorem resolved_severity_witness:
  "level (cells (snd teapot) 0) = unsetLevel \<and> code (cells (snd teapot) 0) \<notin> set known_codes
   \<and> Error_logLevel (cells (snd teapot) 0) = errorLevel
   \<and> level zeroError = unsetLevel
   \<and> code (zeroError\<lparr>code := codes_NotFound\<rparr>) \<in> set known_codes
   \<and> Error_logLevel (zeroError\<lparr>code := codes_NotFound\<rparr>) = warnLevel
   \<and> level (zeroError\<lparr>level := debugLevel\<rparr>) \<noteq> unsetLevel
   \<and> Error_logLevel (zeroError\<lparr>level := debugLevel\<rparr>) = debugLevel"
  using resolved_severity [of _ _ _ _ "cells (snd teapot) 0"]
    resolved_severity [of _ _ _ _ "zeroError\<lparr>code := codes_NotFound\<rparr>"]
    resolved_severity [of _ _ _ _ "zeroError\<lparr>level := debugLevel\<rparr>"]
  by (simp add: teapot_def New_def alloc_def empty_store_def zeroError_def known_codes_def
      codes_defs level_defs)

section \<open>Resolved client message\<close>

lemma index_defaultMessageForCode_known:
  "index_string_map defaultMessageForCode codes_InvalidArgument = ''invalid argument''"
  "index_string_map defaultMessageForCode codes_NotFound = ''not found''"
  "index_string_map defaultMessageForCode codes_AlreadyExists = ''already exists''"
  "index_string_map defaultMessageForCode codes_PermissionDenied = ''permission denied''"
  "index_string_map defaultMessageForCode codes_ResourceExhausted = ''resource exhausted''"
  "index_string_map defaultMessageForCode codes_FailedPrecondition = ''failed precondition''"
  "index_string_map defaultMessageForCode codes_Unimplemented = ''unimplemented''"
  "index_string_map defaultMessageForCode codes_Internal = ''internal error''"
  "index_string_map defaultMessageForCode codes_Unauthenticated = ''unauthenticated''"
  by (simp_all add: index_string_map_def defaultMessageForCode_def codes_defs)

text \<open>
  The Error that \<^verbatim>\<open>New\<close> builds with a code outside the tables and no override:
  \<^verbatim>\<open>logLevel\<close> takes its fallback, the error level, and \<^verbatim>\<open>clientMessage\<close> returns
  the empty string, not the default message of \<^verbatim>\<open>Internal\<close>.
\<close>

lemma out_of_table_message_evaluation:
  "code (cells (snd teapot) 0) \<notin> set known_codes
   \<and> clientMsg (cells (snd teapot) 0) = []
   \<and> level (cells (snd teapot) 0) = unsetLevel
   \<and> clientMessage_at (snd teapot) (fst teapot) = Inr []
   \<and> clientMessage_at (snd teapot) (fst teapot) \<noteq> Inr ''internal error''
   \<and> logLevel_at (snd teapot) (fst teapot) = Inr errorLevel"
  by (simp add: teapot_def New_def alloc_def empty_store_def clientMessage_at_def
      logLevel_at_def Error_clientMessage_def Error_logLevel_def index_string_map_def
      defaultMessageForCode_def defaultLevelForCode_def known_codes_def codes_defs level_defs)

text \<open>
  C8. The resolved client message and the resolved severity are defined for every Error,
  and \<^verbatim>\<open>clientMessage\<close> returns the client message override when it is not empty,
  else what the table of default messages gives for the code. For a code outside the
  tables \<^verbatim>\<open>logLevel\<close> tests the lookup and falls back to the error level, but
  \<^verbatim>\<open>clientMessage\<close> indexes its table without that test: with no overrides set the
  resolved severity is error and the resolved client message is the empty string, where
  the default message of \<^verbatim>\<open>Internal\<close> is expected.
\<close>

theorem resolved_client_message:
  "(clientMsg e \<noteq> [] \<longrightarrow> Error_clientMessage e = clientMsg e)
   \<and> (clientMsg e = [] \<longrightarrow>
        Error_clientMessage e = index_string_map defaultMessageForCode (code e))
   \<and> (code e \<notin> set known_codes \<longrightarrow>
        index_string_map defaultMessageForCode (code e) = [])
   \<and> (clientMsg e = [] \<and> level e = unsetLevel \<and> code e \<notin> set known_codes \<longrightarrow>
        Error_clientMessage e = [] \<and> Error_logLevel e = errorLevel)
   \<and> (\<exists>m l. clientMessage_at s (Some a) = Inr m \<and> logLevel_at s (Some a) = Inr l)"
  by (simp add: Error_clientMessage_def Error_logLevel_def index_string_map_def
      defaultMessageForCode_unknown defaultLevelForCode_unknown clientMessage_at_def
      logLevel_at_def)

theorem resolved_client_message_witness:
  "clientMsg (cells (snd teapot) 0) = [] \<and> level (cells (snd teapot) 0) = unsetLevel
   \<and> code (cells (snd teapot) 0) \<notin> set known_codes
   \<and> Error_clientMessage (cells (snd teapot) 0) = []
   \<and> Error_logLevel (cells (snd teapot) 0) = errorLevel
   \<and> clientMsg (zeroError\<lparr>clientMsg := ''no muffins''\<rparr>) \<noteq> []
   \<and> Error_clientMessage (zeroError\<lparr>clientMsg := ''no muffins''\<rparr>) = ''no muffins''
   \<and> Error_clientMessage (zeroError\<lparr>code := codes_NotFound\<rparr>) = ''not found''"
  using resolved_client_message [of "cells (snd teapot) 0"]
    resolved_client_message [of "zeroError\<lparr>clientMsg := ''no muffins''\<rparr>"]
    resolved_client_message [of "zeroError\<lparr>code := codes_NotFound\<rparr>"]
    index_defaultMessageForCode_known(2)
  by (simp add: teapot_def New_def alloc_def empty_store_def zeroError_def known_codes_def
      codes_defs level_defs)

section \<open>The decoration contract\<close>

text \<open>
  The seven decoration methods as one type of calls, so that chains of them can be
  stated: \<open>decorate\<close> is the call of the named method, \<open>chain\<close> the fluent chain
  \<^verbatim>\<open>e.d1().d2()...\<close>, each call on the pointer the call before returned.
\<close>

datatype decoration =
    CallWithMessage string
  | CallWithErrorID string
  | CallAtDebug | CallAtInfo | CallAtWarn | CallAtError | CallAtPanic

fun decorate :: "decoration \<Rightarrow> ptr \<Rightarrow> store \<Rightarrow> failure + (ptr \<times> store)" where
  "decorate (CallWithMessage m) = WithMessage m"
| "decorate (CallWithErrorID i) = WithErrorID i"
| "decorate CallAtDebug = AtDebug"
| "decorate CallAtInfo = AtInfo"
| "decorate CallAtWarn = AtWarn"
| "decorate CallAtError = AtError"
| "decorate CallAtPanic = AtPanic"

fun chain :: "decoration list \<Rightarrow> ptr \<Rightarrow> store \<Rightarrow> failure + (ptr \<times> store)" where
  "chain [] e s = Inr (e, s)"
| "chain (d # ds) e s = (case decorate d e s of
       Inl f \<Rightarrow> Inl f
     | Inr (e', s') \<Rightarrow> chain ds e' s')"

datatype override = OverrideClientMsg | OverrideErrorID | OverrideLevel

fun written :: "decoration \<Rightarrow> override" where
  "written (CallWithMessage m) = OverrideClientMsg"
| "written (CallWithErrorID i) = OverrideErrorID"
| "written d = OverrideLevel"

lemma decorate_Some:
  "decorate d (Some a) s =
     Inr (Some a, s\<lparr>cells := (cells s)(a := (case d of
         CallWithMessage m \<Rightarrow> (cells s a)\<lparr>clientMsg := m\<rparr>
       | CallWithErrorID i \<Rightarrow> (cells s a)\<lparr>errorID := i\<rparr>
       | CallAtDebug \<Rightarrow> (cells s a)\<lparr>level := debugLevel\<rparr>
       | CallAtInfo \<Rightarrow> (cells s a)\<lparr>level := infoLevel\<rparr>
       | CallAtWarn \<Rightarrow> (cells s a)\<lparr>level := warnLevel\<rparr>
       | CallAtError \<Rightarrow> (cells s a)\<lparr>level := errorLevel\<rparr>
       | CallAtPanic \<Rightarrow> (cells s a)\<lparr>level := panicLevel\<rparr>))\<rparr>)"
  by (cases d)
    (simp_all add: WithMessage_def WithErrorID_def AtDebug_def AtInfo_def AtWarn_def
      AtError_def AtPanic_def set_level_def)

lemma chain_Some: "\<exists>s'. chain ds (Some a) s = Inr (Some a, s')"
proof (induction ds arbitrary: s)
  case Nil
  show ?case by simp
next
  case (Cons d ds)
  show ?case using Cons.IH by (simp add: decorate_Some del: decorate.simps)
qed

lemma chain_twice: "chain [d, d] (Some a) s = chain [d] (Some a) s"
  by (cases d) (simp_all add: decorate_Some del: decorate.simps)

lemma chain_last_wins:
  "written d1 = written d2 \<Longrightarrow> chain [d1, d2] (Some a) s = chain [d2] (Some a) s"
  by (cases d1; cases d2) (simp_all add: decorate_Some del: decorate.simps)

lemma chain_commute:
  "written d1 \<noteq> written d2 \<Longrightarrow> chain [d1, d2] (Some a) s = chain [d2, d1] (Some a) s"
  by (cases d1; cases d2; cases "cells s a")
    (simp_all add: decorate_Some del: decorate.simps)

lemma decorate_frame:
  "\<exists>s'. decorate d (Some a) s = Inr (Some a, s')
      \<and> nxt s' = nxt s
      \<and> (\<forall>b. b \<noteq> a \<longrightarrow> cells s' b = cells s b)
      \<and> code (cells s' a) = code (cells s a)
      \<and> msg (cells s' a) = msg (cells s a)
      \<and> path (cells s' a) = path (cells s a)
      \<and> fields' (cells s' a) = fields' (cells s a)
      \<and> (written d \<noteq> OverrideClientMsg \<longrightarrow> clientMsg (cells s' a) = clientMsg (cells s a))
      \<and> (written d \<noteq> OverrideErrorID \<longrightarrow> errorID (cells s' a) = errorID (cells s a))
      \<and> (written d \<noteq> OverrideLevel \<longrightarrow> level (cells s' a) = level (cells s a))"
  by (cases d) (simp_all add: decorate_Some del: decorate.simps)

lemma decorate_value:
  "\<exists>s'. decorate d (Some a) s = Inr (Some a, s')
      \<and> (case d of
            CallWithMessage m \<Rightarrow> clientMsg (cells s' a) = m
          | CallWithErrorID i \<Rightarrow> errorID (cells s' a) = i
          | CallAtDebug \<Rightarrow> level (cells s' a) = debugLevel
          | CallAtInfo \<Rightarrow> level (cells s' a) = infoLevel
          | CallAtWarn \<Rightarrow> level (cells s' a) = warnLevel
          | CallAtError \<Rightarrow> level (cells s' a) = errorLevel
          | CallAtPanic \<Rightarrow> level (cells s' a) = panicLevel)"
  by (cases d) (simp_all add: decorate_Some del: decorate.simps)

text \<open>
  C5. Called on an Error (a non-nil pointer), every decoration returns the pointer it was
  called on, sets its own override field to the value of the call and changes nothing
  else in the store. Applying the same call twice is the same as applying it once, of two
  calls that write the same field the last one wins, two calls that write different
  fields can be made in either order, and a chain of any calls in any order returns the
  same pointer and never fails.
\<close>

theorem decorations_contract:
  "(\<exists>s'. decorate d (Some a) s = Inr (Some a, s')
      \<and> nxt s' = nxt s
      \<and> (\<forall>b. b \<noteq> a \<longrightarrow> cells s' b = cells s b)
      \<and> code (cells s' a) = code (cells s a)
      \<and> msg (cells s' a) = msg (cells s a)
      \<and> path (cells s' a) = path (cells s a)
      \<and> fields' (cells s' a) = fields' (cells s a)
      \<and> (written d \<noteq> OverrideClientMsg \<longrightarrow> clientMsg (cells s' a) = clientMsg (cells s a))
      \<and> (written d \<noteq> OverrideErrorID \<longrightarrow> errorID (cells s' a) = errorID (cells s a))
      \<and> (written d \<noteq> OverrideLevel \<longrightarrow> level (cells s' a) = level (cells s a)))
   \<and> (\<exists>s'. decorate d (Some a) s = Inr (Some a, s')
      \<and> (case d of
            CallWithMessage m \<Rightarrow> clientMsg (cells s' a) = m
          | CallWithErrorID i \<Rightarrow> errorID (cells s' a) = i
          | CallAtDebug \<Rightarrow> level (cells s' a) = debugLevel
          | CallAtInfo \<Rightarrow> level (cells s' a) = infoLevel
          | CallAtWarn \<Rightarrow> level (cells s' a) = warnLevel
          | CallAtError \<Rightarrow> level (cells s' a) = errorLevel
          | CallAtPanic \<Rightarrow> level (cells s' a) = panicLevel))
   \<and> chain [d, d] (Some a) s = chain [d] (Some a) s
   \<and> (written d1 = written d2 \<longrightarrow> chain [d1, d2] (Some a) s = chain [d2] (Some a) s)
   \<and> (written d1 \<noteq> written d2 \<longrightarrow>
        chain [d1, d2] (Some a) s = chain [d2, d1] (Some a) s)
   \<and> (\<exists>s'. chain ds (Some a) s = Inr (Some a, s'))"
  using decorate_frame [of d a s] decorate_value [of d a s] chain_twice [of d a s]
    chain_last_wins [of d1 d2 a s] chain_commute [of d1 d2 a s] chain_Some [of ds a s]
  by blast

theorem decorations_contract_witness:
  "written CallAtError = written CallAtPanic
   \<and> chain [CallAtError, CallAtPanic] (Some 0) (snd teapot)
       = chain [CallAtPanic] (Some 0) (snd teapot)
   \<and> written (CallWithMessage ''bad input given'') \<noteq> written CallAtError
   \<and> chain [CallWithMessage ''bad input given'', CallAtError] (Some 0) (snd teapot)
       = chain [CallAtError, CallWithMessage ''bad input given''] (Some 0) (snd teapot)
   \<and> chain [CallAtPanic] (Some 0) (snd teapot)
       = Inr (Some 0, (snd teapot)\<lparr>cells := (cells (snd teapot))
                        (0 := (cells (snd teapot) 0)\<lparr>level := panicLevel\<rparr>)\<rparr>)"
  using decorations_contract [of CallAtPanic 0 "snd teapot" CallAtError CallAtPanic "[]"]
    decorations_contract [of CallAtPanic 0 "snd teapot" "CallWithMessage ''bad input given''"
      CallAtError "[]"]
  by (simp add: decorate_Some del: decorate.simps)

section \<open>The cause of an Error\<close>

text \<open>
  The instance of \<^verbatim>\<open>randomError\<close> of the tests (a comparable value type without
  \<^verbatim>\<open>Unwrap\<close>), and the Error of \<^verbatim>\<open>TestErr\<close> allocated in the empty store.
\<close>

definition randomError :: goerr where
  "randomError = Foreign ''gqlerr.randomError'' ''a random error'' 0 True None"

definition test_err :: "ptr \<times> store" where
  "test_err = Internal Background ''some error''
     [zap_String ''a_field'' ''test'', zap_Int ''another_field'' 123,
      zap_Error (Some randomError)] empty_store"

text \<open>The fields \<^verbatim>\<open>err\<close> stops at.\<close>

definition carries_cause :: "Field \<Rightarrow> bool" where
  "carries_cause f =
     (Key f = ''error'' \<and> Type f = ErrorType
      \<and> (case Interface f of VError c \<Rightarrow> True | _ \<Rightarrow> False))"

lemma err_loop_find:
  "err_loop fs = (case find carries_cause fs of
       None \<Rightarrow> None
     | Some f \<Rightarrow> (case Interface f of VError c \<Rightarrow> Some c | _ \<Rightarrow> None))"
  by (induction fs) (auto simp: carries_cause_def split: goval.splits)

lemma carries_cause_zap_Error: "carries_cause (zap_Error (Some c))"
  by (simp add: carries_cause_def zap_Error_def zap_NamedError_def)

lemma err_loop_first:
  "\<forall>f \<in> set pre. \<not> carries_cause f \<Longrightarrow> err_loop (pre @ zap_Error (Some c) # post) = Some c"
proof (induction pre)
  case Nil
  show ?case by (simp add: zap_Error_def zap_NamedError_def)
next
  case (Cons f pre)
  then show ?case by (auto simp: carries_cause_def split: goval.splits)
qed

lemma err_loop_none: "\<forall>f \<in> set fs. \<not> carries_cause f \<Longrightarrow> err_loop fs = None"
  by (induction fs) (auto simp: carries_cause_def split: goval.splits)

lemma Is_loop_refl: "go_comparable c \<Longrightarrow> Is_loop c c"
proof (cases c)
  case (GqlErr p)
  then show ?thesis by simp
next
  case (Foreign ty tx i cm w)
  assume "go_comparable c"
  with Foreign show ?thesis by (cases w) simp_all
qed

text \<open>
  C6, as stated, fails. In \<^verbatim>\<open>TestErr\<close> the cause \<^verbatim>\<open>err\<close> returns is the instance that
  was passed, but \<^verbatim>\<open>errors.Is\<close> started at the Error itself does not find it:
  \<^verbatim>\<open>*Error\<close> has neither an \<^verbatim>\<open>Unwrap\<close> nor an \<^verbatim>\<open>Is\<close> method. And a field that is
  tagged as carrying an error under a key other than \<^verbatim>\<open>"error"\<close> is passed over.
\<close>

theorem err_cause_counterexample:
  "Error_err (cells (snd test_err) 0) = Some randomError
   \<and> fst test_err = Some 0
   \<and> go_comparable randomError
   \<and> \<not> errors_Is (Some (GqlErr (fst test_err))) (Some randomError)
   \<and> Type (zap_NamedError ''cause'' (Some randomError)) = ErrorType
   \<and> err_loop [zap_NamedError ''cause'' (Some randomError)] = None"
  by (simp add: test_err_def Internal_def New_def alloc_def empty_store_def Error_err_def
      zap_String_def zap_Int_def zap_Error_def zap_NamedError_def randomError_def
      errors_Is_def)

text \<open>
  C6, amended. \<^verbatim>\<open>err\<close> scans the fields in order and returns the error carried by the
  first field whose key is \<^verbatim>\<open>"error"\<close>, whose type tag is the error tag and whose
  payload is an error, or none when there is no such field. For an Error constructed
  with a field \<^verbatim>\<open>zap.Error(c)\<close> before which no such field stands, it returns the
  instance \<open>c\<close> that was passed, and \<^verbatim>\<open>errors.Is\<close> of the returned cause against that
  instance succeeds when the instance is of a comparable type. \<^verbatim>\<open>errors.Is\<close> started
  at the Error itself matches no target but that same pointer.
\<close>

theorem err_cause_roundtrip:
  "Error_err e = (case find carries_cause (fields' e) of
       None \<Rightarrow> None
     | Some f \<Rightarrow> (case Interface f of VError c \<Rightarrow> Some c | _ \<Rightarrow> None))
   \<and> ((\<forall>f \<in> set (fields' e). \<not> carries_cause f) \<longrightarrow> Error_err e = None)
   \<and> (fields' e = pre @ zap_Error (Some c) # post \<and> (\<forall>f \<in> set pre. \<not> carries_cause f)
        \<longrightarrow> Error_err e = Some c
          \<and> (go_comparable c \<longrightarrow> errors_Is (Error_err e) (Some c)))
   \<and> go_Unwrap (GqlErr p) = None
   \<and> errors_Is (Some (GqlErr p)) (Some t) = (t = GqlErr p)"
proof -
  have 1: "Error_err e = (case find carries_cause (fields' e) of
       None \<Rightarrow> None
     | Some f \<Rightarrow> (case Interface f of VError c \<Rightarrow> Some c | _ \<Rightarrow> None))"
    by (simp add: Error_err_def err_loop_find)
  have 2: "(\<forall>f \<in> set (fields' e). \<not> carries_cause f) \<longrightarrow> Error_err e = None"
    by (simp add: Error_err_def err_loop_none)
  have 3: "fields' e = pre @ zap_Error (Some c) # post \<and> (\<forall>f \<in> set pre. \<not> carries_cause f)
        \<longrightarrow> Error_err e = Some c
          \<and> (go_comparable c \<longrightarrow> errors_Is (Error_err e) (Some c))"
    by (simp add: Error_err_def err_loop_first errors_Is_def Is_loop_refl)
  have 4: "errors_Is (Some (GqlErr p)) (Some t) = (t = GqlErr p)"
    by (auto simp: errors_Is_def)
  have 5: "go_Unwrap (GqlErr p) = None"
    by simp
  from 1 2 3 4 5 show ?thesis by blast
qed

theorem err_cause_roundtrip_witness:
  "fields' (cells (snd test_err) 0)
     = [zap_String ''a_field'' ''test'', zap_Int ''another_field'' 123]
       @ zap_Error (Some randomError) # []
   \<and> \<not> carries_cause (zap_String ''a_field'' ''test'')
   \<and> \<not> carries_cause (zap_Int ''another_field'' 123)
   \<and> go_comparable randomError
   \<and> Error_err (cells (snd test_err) 0) = Some randomError
   \<and> errors_Is (Error_err (cells (snd test_err) 0)) (Some randomError)
   \<and> \<not> carries_cause (zap_Skip)
   \<and> Error_err (zeroError\<lparr>fields' := [zap_Skip]\<rparr>) = None"
proof -
  let ?e = "cells (snd test_err) 0"
  let ?pre = "[zap_String ''a_field'' ''test'', zap_Int ''another_field'' 123]"
  have f: "fields' ?e = ?pre @ zap_Error (Some randomError) # []"
    by (simp add: test_err_def Internal_def New_def alloc_def empty_store_def)
  have n: "\<not> carries_cause (zap_String ''a_field'' ''test'')"
    "\<not> carries_cause (zap_Int ''another_field'' 123)" "\<not> carries_cause zap_Skip"
    by (simp_all add: carries_cause_def zap_String_def zap_Int_def zap_Skip_def)
  then have pre: "\<forall>f \<in> set ?pre. \<not> carries_cause f"
    by simp
  have c: "go_comparable randomError"
    by (simp add: randomError_def)
  have "Error_err ?e = Some randomError \<and> errors_Is (Error_err ?e) (Some randomError)"
    using err_cause_roundtrip [of ?e ?pre randomError "[]"] f pre c by blast
  moreover have "Error_err (zeroError\<lparr>fields' := [zap_Skip]\<rparr>) = None"
    using err_cause_roundtrip [of "zeroError\<lparr>fields' := [zap_Skip]\<rparr>"] n(3) by simp
  ultimately show ?thesis using f n c by blast
qed

section \<open>The text of an Error\<close>

definition plain_byte :: "char \<Rightarrow> bool" where
  "plain_byte c = (0x20 \<le> (of_char c :: nat) \<and> (of_char c :: nat) < 0x7F
                   \<and> (of_char c :: nat) \<noteq> 0x22 \<and> (of_char c :: nat) \<noteq> 0x5C)"

lemma quote_byte_plain: "plain_byte c \<Longrightarrow> quote_byte c = [c]"
  by (simp add: plain_byte_def quote_byte_def Let_def)

lemma go_quote_plain:
  "\<forall>c \<in> set s. plain_byte c \<Longrightarrow> go_quote s = [CHR 0x22] @ s @ [CHR 0x22]"
proof -
  assume "\<forall>c \<in> set s. plain_byte c"
  then have "concat (map quote_byte s) = s"
    by (induction s) (simp_all add: quote_byte_plain)
  then show ?thesis by (simp add: go_quote_def)
qed

lemma known_codes_plain: "c \<in> set known_codes \<Longrightarrow> \<forall>x \<in> set c. plain_byte x"
  by (auto simp: known_codes_def codes_defs plain_byte_def)

lemma Error_Error_no_cause:
  "Error_err (cells s a) = None \<Longrightarrow>
     Error_Error s (Some a) = Some (''['' @ go_quote (code (cells s a)) @ ''] '' @ msg (cells s a))"
  by (subst Error_Error.simps) simp

lemma Error_Error_cause:
  "Error_err (cells s a) = Some c \<Longrightarrow>
     Error_Error s (Some a) =
       (case go_Error_text s c of
          None \<Rightarrow> None
        | Some t \<Rightarrow> Some (''['' @ go_quote (code (cells s a)) @ ''] '' @ msg (cells s a)
                          @ '': '' @ t))"
  by (subst Error_Error.simps) (simp add: go_Error_text_def split: goerr.splits option.splits)

definition internal_boom :: "ptr \<times> store" where
  "internal_boom = Internal Background ''boom'' [] empty_store"

text \<open>
  C7, as stated, fails: the code is written with the verb \<^verbatim>\<open>%q\<close>, so it stands in
  double quotes between the brackets.
\<close>

theorem Error_text_counterexample:
  "Error_Error (snd internal_boom) (fst internal_boom)
     = Some (''['' @ [CHR 0x22] @ ''internal'' @ [CHR 0x22] @ ''] boom'')
   \<and> Error_Error (snd internal_boom) (fst internal_boom) \<noteq> Some ''[internal] boom''
   \<and> Error_err (cells (snd internal_boom) 0) = None
   \<and> code (cells (snd internal_boom) 0) = ''internal''
   \<and> msg (cells (snd internal_boom) 0) = ''boom''"
proof -
  have e: "Error_err (cells (snd internal_boom) 0) = None"
    by (simp add: internal_boom_def Internal_def New_def alloc_def empty_store_def
        Error_err_def)
  have q: "go_quote codes_Internal = [CHR 0x22] @ ''internal'' @ [CHR 0x22]"
    using go_quote_plain [OF known_codes_plain [OF known_codes_mem(8)]]
    by (simp add: codes_Internal_def)
  have "Error_Error (snd internal_boom) (Some 0)
          = Some (''['' @ [CHR 0x22] @ ''internal'' @ [CHR 0x22] @ ''] boom'')"
    using Error_Error_no_cause [OF e] q
    by (simp add: internal_boom_def Internal_def New_def alloc_def empty_store_def)
  moreover have "fst internal_boom = Some 0"
    by (simp add: internal_boom_def Internal_def New_def alloc_def empty_store_def)
  ultimately show ?thesis using e
    by (simp add: internal_boom_def Internal_def New_def alloc_def empty_store_def
        codes_Internal_def)
qed

text \<open>
  C7, amended. Rendering an Error as text yields the code written as a double-quoted Go
  string literal between brackets, a space and the internal message when no cause is
  present, and the same followed by a colon, a space and the text of the cause when a
  cause is present and its own rendering returns. A code of the table, like every code
  made of printable ASCII characters other than the double quote and the backslash, is
  quoted unchanged. The nil receiver renders as the empty string.
\<close>

theorem Error_text_rendering:
  "Error_Error s None = Some []
   \<and> (Error_err (cells s a) = None \<longrightarrow>
        Error_Error s (Some a)
          = Some (''['' @ go_quote (code (cells s a)) @ ''] '' @ msg (cells s a)))
   \<and> (Error_err (cells s a) = Some c \<and> go_Error_text s c = Some t \<longrightarrow>
        Error_Error s (Some a)
          = Some (''['' @ go_quote (code (cells s a)) @ ''] '' @ msg (cells s a)
                  @ '': '' @ t))
   \<and> (Error_err (cells s a) = Some (Foreign ty tx i cm w) \<longrightarrow>
        Error_Error s (Some a)
          = Some (''['' @ go_quote (code (cells s a)) @ ''] '' @ msg (cells s a)
                  @ '': '' @ tx))
   \<and> ((\<forall>x \<in> set k. plain_byte x) \<longrightarrow> go_quote k = [CHR 0x22] @ k @ [CHR 0x22])
   \<and> (k \<in> set known_codes \<longrightarrow> go_quote k = [CHR 0x22] @ k @ [CHR 0x22])"
proof -
  have 1: "Error_Error s None = Some []"
    by (subst Error_Error.simps) simp
  have 3: "Error_err (cells s a) = Some c \<and> go_Error_text s c = Some t \<longrightarrow>
        Error_Error s (Some a)
          = Some (''['' @ go_quote (code (cells s a)) @ ''] '' @ msg (cells s a)
                  @ '': '' @ t)"
    by (simp add: Error_Error_cause)
  have 4: "Error_err (cells s a) = Some (Foreign ty tx i cm w) \<longrightarrow>
        Error_Error s (Some a)
          = Some (''['' @ go_quote (code (cells s a)) @ ''] '' @ msg (cells s a)
                  @ '': '' @ tx)"
    by (simp add: Error_Error_cause go_Error_text_def)
  have 5: "(\<forall>x \<in> set k. plain_byte x) \<longrightarrow> go_quote k = [CHR 0x22] @ k @ [CHR 0x22]"
    using go_quote_plain by blast
  have 6: "k \<in> set known_codes \<longrightarrow> go_quote k = [CHR 0x22] @ k @ [CHR 0x22]"
    using go_quote_plain known_codes_plain by blast
  from 1 3 4 5 6 Error_Error_no_cause [of s a] show ?thesis by blast
qed

theorem Error_text_rendering_witness:
  "Error_err (cells (snd internal_boom) 0) = None
   \<and> Error_Error (snd internal_boom) (Some 0)
       = Some (''['' @ [CHR 0x22] @ ''internal'' @ [CHR 0x22] @ ''] boom'')
   \<and> Error_err (cells (snd test_err) 0) = Some randomError
   \<and> go_Error_text (snd test_err) randomError = Some ''a random error''
   \<and> Error_Error (snd test_err) (Some 0)
       = Some (''['' @ [CHR 0x22] @ ''internal'' @ [CHR 0x22]
               @ ''] some error: a random error'')
   \<and> codes_Internal \<in> set known_codes"
  using Error_text_rendering [of "snd internal_boom" 0 _ _ _ _ _ _ _ codes_Internal]
    Error_text_rendering [of "snd test_err" 0 randomError "''a random error''" _ _ _ _ _
      codes_Internal]
  by (simp add: internal_boom_def test_err_def Internal_def New_def alloc_def
      empty_store_def Error_err_def zap_String_def zap_Int_def zap_Error_def
      zap_NamedError_def randomError_def go_Error_text_def known_codes_def codes_defs)

section \<open>The presenter\<close>

text \<open>
  The chain of \<^verbatim>\<open>Unwrap\<close> of an error, the error itself first, and the test for the
  dynamic type \<^verbatim>\<open>*Error\<close> that \<^verbatim>\<open>errors.As\<close> makes along it.
\<close>

fun unwrap_chain :: "goerr \<Rightarrow> goerr list" where
  "unwrap_chain (GqlErr p) = [GqlErr p]"
| "unwrap_chain (Foreign ty tx i c None) = [Foreign ty tx i c None]"
| "unwrap_chain (Foreign ty tx i c (Some w)) = Foreign ty tx i c (Some w) # unwrap_chain w"

fun is_Error_ptr :: "goerr \<Rightarrow> bool" where
  "is_Error_ptr (GqlErr p) = True"
| "is_Error_ptr (Foreign ty tx i c w) = False"

definition logged_fields :: "Error \<Rightarrow> Field list" where
  "logged_fields e =
     (if Path_String (path e) \<noteq> []
      then zap_String ''gql_path'' (Path_String (path e)) # fields' e
      else fields' e)"

text \<open>What a call left behind: the fields of the Error at an address, if it returned.\<close>

definition fields_after ::
  "failure + (gqlerror option \<times> logger \<times> store) \<Rightarrow> nat \<Rightarrow> Field list option" where
  "fields_after r a = (case r of
       Inl f \<Rightarrow> None
     | Inr (g, lg, s) \<Rightarrow> Some (fields' (cells s a)))"

text \<open>An Error built in a resolver, where the context has a path.\<close>

definition pathed_err :: "ptr \<times> store" where
  "pathed_err = InvalidArgument (WithPath [PathName ''user'', PathIndex 3, PathName ''name''])
     ''user entered a bad number of muffins'' [zap_Int ''muffin_count'' (- 123)] empty_store"

lemma errors_As_find:
  "errors_As er = (case find is_Error_ptr (unwrap_chain er) of
       None \<Rightarrow> None
     | Some x \<Rightarrow> (case x of GqlErr p \<Rightarrow> Some p | Foreign ty tx i c w \<Rightarrow> None))"
  by (induction er rule: errors_As.induct) simp_all

lemma errors_As_None_iff:
  "errors_As er = None \<longleftrightarrow> (\<forall>x \<in> set (unwrap_chain er). \<not> is_Error_ptr x)"
  by (induction er rule: errors_As.induct) simp_all

lemma errors_As_found:
  "find is_Error_ptr (unwrap_chain er) = Some (GqlErr p) \<Longrightarrow> errors_As er = Some p"
  by (simp add: errors_As_find)

lemma errors_As_None_Foreign:
  "errors_As er = None \<Longrightarrow> go_Error_text s er = Some (errtext er) \<and> go_typename er = tyname er"
  by (cases er) (simp_all add: go_Error_text_def go_typename_def)

lemma Path_String_from_nonempty:
  "p \<noteq> [] \<Longrightarrow> \<forall>n. PathName n \<in> set p \<longrightarrow> n \<noteq> [] \<Longrightarrow> Path_String_from i p \<noteq> []"
proof (cases p)
  case Nil
  assume "p \<noteq> []"
  with Nil show ?thesis by simp
next
  case (Cons x rest)
  assume wf: "\<forall>n. PathName n \<in> set p \<longrightarrow> n \<noteq> []"
  show ?thesis
  proof (cases x)
    case (PathName n)
    with Cons wf have "n \<noteq> []" by simp
    with Cons PathName show ?thesis by simp
  next
    case (PathIndex v)
    with Cons show ?thesis by simp
  qed
qed

lemma Path_String_empty_iff:
  "\<forall>n. PathName n \<in> set p \<longrightarrow> n \<noteq> [] \<Longrightarrow> Path_String p \<noteq> [] \<longleftrightarrow> p \<noteq> []"
  using Path_String_from_nonempty [of p 0] by (auto simp: Path_String_def)

lemma Internal_fragment:
  "Error_toGQLError (snd (Internal ctx m fs s)) (fst (Internal ctx m fs s)) =
     Some \<lparr>Message = ''internal error'', Path = graphql_GetPath ctx,
           Extensions = [''code'' \<mapsto> ''internal'']\<rparr>"
  using index_defaultMessageForCode_known(8)
  by (simp add: Internal_def New_def alloc_def Error_toGQLError_def Error_clientMessage_def
      Error_extensions_def codes_Internal_def)

lemma ErrorPresenter_other:
  assumes "errors_As er = None"
  shows "ErrorPresenter lg ctx (Some er) s =
     Inr (Some \<lparr>Message = ''internal error'', Path = graphql_GetPath ctx,
                Extensions = [''code'' \<mapsto> ''internal'']\<rparr>,
          lg @ [\<lparr>Level = ErrorLevel, LogMessage = wrong_type_message,
                  LogContext = [zap_String ''type'' (go_typename er), zap_Error (Some er)]\<rparr>],
          snd (Internal ctx (errtext er) [zap_Error (Some er)] (snd (alloc zeroError s))))"
  using assms errors_As_None_Foreign [OF assms, of "snd (alloc zeroError s)"]
    Internal_fragment [of ctx "errtext er" "[zap_Error (Some er)]" "snd (alloc zeroError s)"]
  by (simp add: ErrorPresenter_def split_beta Let_def)

lemma ErrorPresenter_found:
  assumes "errors_As er = Some (Some a)" and "a < nxt s"
  shows "ErrorPresenter lg ctx (Some er) s =
     Inr (Some \<lparr>Message = Error_clientMessage (cells s a), Path = path (cells s a),
                Extensions = Error_extensions (cells s a)\<rparr>,
          lg @ [\<lparr>Level = logFn_level (Error_logLevel (cells s a)),
                  LogMessage = msg (cells s a),
                  LogContext = logged_fields (cells s a)\<rparr>],
          s\<lparr>cells := (cells s)(nxt s := zeroError,
                                 a := (cells s a)\<lparr>fields' := logged_fields (cells s a)\<rparr>),
            nxt := Suc (nxt s)\<rparr>)"
  using assms
  by (cases "cells s a")
    (simp add: ErrorPresenter_def alloc_def logError_def Let_def Error_toGQLError_def
      logged_fields_def Error_clientMessage_def Error_extensions_def Error_logLevel_def)

lemma ErrorPresenter_typed_nil:
  "errors_As er = Some None \<Longrightarrow> ErrorPresenter lg ctx (Some er) s = Inl NilDereference"
  by (simp add: ErrorPresenter_def alloc_def logError_def)

text \<open>
  C1. For every input error whose chain of \<^verbatim>\<open>Unwrap\<close> holds no \<^verbatim>\<open>*Error\<close>, the
  presenter returns, having added exactly one entry to the sink: at error level, with
  the message "received error that was not of type *gqlerr.Error" and the two fields
  \<^verbatim>\<open>type\<close>, a string field with the dynamic type name of the input error, and
  \<^verbatim>\<open>error\<close>, an error field carrying the input error itself. The fragment it returns
  has the message "internal error" and the extensions map with the single entry
  \<^verbatim>\<open>code\<close> = "internal". No Error that existed before the call is changed.
\<close>

theorem presenter_other_error:
  assumes "\<forall>x \<in> set (unwrap_chain er). \<not> is_Error_ptr x"
  shows "\<exists>g s'. ErrorPresenter lg ctx (Some er) s =
            Inr (Some g,
                 lg @ [\<lparr>Level = ErrorLevel,
                         LogMessage = ''received error that was not of type *gqlerr.Error'',
                         LogContext =
                           [\<lparr>Key = ''type'', Type = StringType, Integer = 0,
                              String = tyname er, Interface = VNil\<rparr>,
                            \<lparr>Key = ''error'', Type = ErrorType, Integer = 0,
                              String = [], Interface = VError er\<rparr>]\<rparr>],
                 s')
          \<and> Message g = ''internal error''
          \<and> Extensions g = [''code'' \<mapsto> ''internal'']
          \<and> Path g = graphql_GetPath ctx
          \<and> (\<forall>b < nxt s. cells s' b = cells s b)"
proof -
  from assms have none: "errors_As er = None"
    by (simp add: errors_As_None_iff)
  have ty: "go_typename er = tyname er"
    using errors_As_None_Foreign [OF none] by simp
  show ?thesis
    using ErrorPresenter_other [OF none, of lg ctx s] ty
    by (simp add: wrong_type_message_def zap_String_def zap_Error_def zap_NamedError_def
        Internal_def New_def alloc_def)
qed

theorem presenter_other_error_witness:
  "\<not> is_Error_ptr randomError
   \<and> unwrap_chain randomError = [randomError]
   \<and> (\<exists>g s'. ErrorPresenter [] Background (Some randomError) empty_store =
          Inr (Some g,
               [\<lparr>Level = ErrorLevel,
                  LogMessage = ''received error that was not of type *gqlerr.Error'',
                  LogContext =
                    [\<lparr>Key = ''type'', Type = StringType, Integer = 0,
                       String = ''gqlerr.randomError'', Interface = VNil\<rparr>,
                     \<lparr>Key = ''error'', Type = ErrorType, Integer = 0,
                       String = [], Interface = VError randomError\<rparr>]\<rparr>],
               s')
        \<and> Message g = ''internal error''
        \<and> Extensions g = [''code'' \<mapsto> ''internal'']
        \<and> Path g = [])"
proof -
  have c: "unwrap_chain randomError = [randomError]" "\<not> is_Error_ptr randomError"
    by (simp_all add: randomError_def)
  then have h: "\<forall>x \<in> set (unwrap_chain randomError). \<not> is_Error_ptr x"
    by simp
  have t: "tyname randomError = ''gqlerr.randomError''"
    by (simp add: randomError_def)
  show ?thesis
    using presenter_other_error [OF h, of "[]" Background empty_store] t c by auto
qed

text \<open>
  The handler error of \<^verbatim>\<open>TestPresenter\<close>: the store after
  \<^verbatim>\<open>InvalidArgument(...).AtError().WithMessage(...).WithErrorID(...)\<close> in a bare
  context, with the Error at address 0.
\<close>

definition underlyingError :: goerr where
  "underlyingError = Foreign ''*errors.errorString'' ''muffin validation failed'' 1 True None"

definition muffin_fields :: "Field list" where
  "muffin_fields = [zap_String ''muffin_type'' ''blueberry'', zap_Int ''muffin_count'' (- 123),
                    zap_Error (Some underlyingError)]"

definition muffin_store :: store where
  "muffin_store =
     \<lparr>cells = (cells empty_store)(0 :=
        \<lparr>code = codes_InvalidArgument, msg = ''user entered a bad number of muffins'',
         path = [], level = errorLevel, clientMsg = ''bad input given'',
         fields' = muffin_fields, errorID = ''muffins_must_be_positive''\<rparr>),
      nxt = 1\<rparr>"

lemma muffin_store_built:
  "chain [CallAtError, CallWithMessage ''bad input given'',
          CallWithErrorID ''muffins_must_be_positive'']
     (fst (InvalidArgument Background ''user entered a bad number of muffins''
             muffin_fields empty_store))
     (snd (InvalidArgument Background ''user entered a bad number of muffins''
             muffin_fields empty_store))
   = Inr (Some 0, muffin_store)"
  by (simp add: InvalidArgument_def New_def alloc_def empty_store_def muffin_store_def
      WithMessage_def WithErrorID_def AtError_def set_level_def level_defs)

lemma logFn_level_cases:
  "logFn_level debugLevel = DebugLevel" "logFn_level infoLevel = InfoLevel"
  "logFn_level warnLevel = WarnLevel" "logFn_level errorLevel = ErrorLevel"
  "logFn_level panicLevel = DPanicLevel" "logFn_level unsetLevel = ErrorLevel"
  "l < debugLevel \<or> panicLevel < l \<Longrightarrow> logFn_level l = ErrorLevel"
  by (auto simp: logFn_level_def level_defs)

text \<open>
  An Error whose captured path is not empty but is written as the empty string: the one
  element is a name, and the name is empty.
\<close>

definition empty_name_err :: "ptr \<times> store" where
  "empty_name_err = NotFound (WithPath [PathName []]) ''no such muffin''
     [zap_Int ''muffin_id'' 7] empty_store"

text \<open>What a call left in the sink, if it returned.\<close>

definition logs_after ::
  "failure + (gqlerror option \<times> logger \<times> store) \<Rightarrow> logger option" where
  "logs_after r = (case r of
       Inl f \<Rightarrow> None
     | Inr (g, lg, s) \<Rightarrow> Some lg)"

lemma empty_name_err_eval:
  "fst empty_name_err = Some 0"
  "nxt (snd empty_name_err) = 1"
  "cells (snd empty_name_err) 0 =
     \<lparr>code = codes_NotFound, msg = ''no such muffin'', path = [PathName []],
      level = unsetLevel, clientMsg = [], fields' = [zap_Int ''muffin_id'' 7],
      errorID = []\<rparr>"
  by (simp_all add: empty_name_err_def NotFound_def New_def alloc_def empty_store_def)

text \<open>
  C2, as stated, fails in its condition for \<^verbatim>\<open>gql_path\<close>. The test of \<^verbatim>\<open>logError\<close> is
  on the string of the path, not on the path: for the path whose one element is the
  empty name the captured path is not empty, its string is, and the entry carries the
  Error's fields with no \<^verbatim>\<open>gql_path\<close> in front.
\<close>

theorem presenter_gql_path_counterexample:
  "path (cells (snd empty_name_err) 0) = [PathName []]
   \<and> path (cells (snd empty_name_err) 0) \<noteq> []
   \<and> Path_String (path (cells (snd empty_name_err) 0)) = []
   \<and> fields' (cells (snd empty_name_err) 0) = [zap_Int ''muffin_id'' 7]
   \<and> logs_after
        (ErrorPresenter [] Background (Some (GqlErr (fst empty_name_err)))
           (snd empty_name_err))
       = Some [\<lparr>Level = WarnLevel, LogMessage = ''no such muffin'',
                 LogContext = [zap_Int ''muffin_id'' 7]\<rparr>]"
proof -
  have as: "errors_As (GqlErr (Some 0)) = Some (Some 0)"
    by simp
  have lt: "0 < nxt (snd empty_name_err)"
    by (simp add: empty_name_err_eval)
  have lv: "logFn_level (Error_logLevel (cells (snd empty_name_err) 0)) = WarnLevel"
    using defaultLevelForCode_known [OF known_codes_mem(2)] codes_not_Internal(2)
      logFn_level_cases(3)
    by (simp add: empty_name_err_eval Error_logLevel_def)
  show ?thesis
    using ErrorPresenter_found [OF as lt, of "[]" Background] lv
    by (simp add: empty_name_err_eval logs_after_def logged_fields_def Path_String_def)
qed

text \<open>
  C2, amended. For every input error that resolves to an Error (the first \<^verbatim>\<open>*Error\<close> on
  its chain of \<^verbatim>\<open>Unwrap\<close>, a non-nil pointer to an allocated struct), the presenter
  adds exactly one entry to the sink. The entry is written by the sink method of the
  Error's resolved severity (debug, info, warn and error by the method of that name,
  panic by \<^verbatim>\<open>DPanic\<close>, unset and any other value by \<^verbatim>\<open>Error\<close>), its message is the
  Error's internal message, and its fields are the Error's fields, with the string field
  \<^verbatim>\<open>gql_path\<close> put in front if and only if the string of the captured request path
  is not empty. For a path whose names are all non-empty that is if and only if the path
  is not empty. The presenter then returns the client fragment of that Error.
\<close>

theorem presenter_resolved_error:
  assumes "find is_Error_ptr (unwrap_chain er) = Some (GqlErr (Some a))" and "a < nxt s"
  shows "(\<exists>s'. ErrorPresenter lg ctx (Some er) s =
            Inr (Error_toGQLError s (Some a),
                 lg @ [\<lparr>Level = logFn_level (Error_logLevel (cells s a)),
                         LogMessage = msg (cells s a),
                         LogContext =
                           (if Path_String (path (cells s a)) \<noteq> []
                            then zap_String ''gql_path'' (Path_String (path (cells s a)))
                                 # fields' (cells s a)
                            else fields' (cells s a))\<rparr>],
                 s'))
     \<and> Error_toGQLError s (Some a) =
         Some \<lparr>Message = Error_clientMessage (cells s a), Path = path (cells s a),
               Extensions = Error_extensions (cells s a)\<rparr>
     \<and> ((\<forall>n. PathName n \<in> set (path (cells s a)) \<longrightarrow> n \<noteq> []) \<longrightarrow>
          (Path_String (path (cells s a)) \<noteq> [] \<longleftrightarrow> path (cells s a) \<noteq> []))
     \<and> logFn_level debugLevel = DebugLevel \<and> logFn_level infoLevel = InfoLevel
     \<and> logFn_level warnLevel = WarnLevel \<and> logFn_level errorLevel = ErrorLevel
     \<and> logFn_level panicLevel = DPanicLevel \<and> logFn_level unsetLevel = ErrorLevel
     \<and> (l < debugLevel \<or> panicLevel < l \<longrightarrow> logFn_level l = ErrorLevel)"
proof -
  from assms(1) have as: "errors_As er = Some (Some a)"
    by (rule errors_As_found)
  have 1: "\<exists>s'. ErrorPresenter lg ctx (Some er) s =
            Inr (Error_toGQLError s (Some a),
                 lg @ [\<lparr>Level = logFn_level (Error_logLevel (cells s a)),
                         LogMessage = msg (cells s a),
                         LogContext =
                           (if Path_String (path (cells s a)) \<noteq> []
                            then zap_String ''gql_path'' (Path_String (path (cells s a)))
                                 # fields' (cells s a)
                            else fields' (cells s a))\<rparr>],
                 s')"
    using ErrorPresenter_found [OF as assms(2), of lg ctx]
    by (simp add: Error_toGQLError_def logged_fields_def)
  have 2: "Error_toGQLError s (Some a) =
         Some \<lparr>Message = Error_clientMessage (cells s a), Path = path (cells s a),
               Extensions = Error_extensions (cells s a)\<rparr>"
    by (simp add: Error_toGQLError_def)
  have 3: "(\<forall>n. PathName n \<in> set (path (cells s a)) \<longrightarrow> n \<noteq> []) \<longrightarrow>
          (Path_String (path (cells s a)) \<noteq> [] \<longleftrightarrow> path (cells s a) \<noteq> [])"
    using Path_String_empty_iff by blast
  have 4: "l < debugLevel \<or> panicLevel < l \<longrightarrow> logFn_level l = ErrorLevel"
    using logFn_level_cases(7) by blast
  from 1 2 3 4 logFn_level_cases(1-6) show ?thesis by blast
qed

theorem presenter_resolved_error_witness:
  "find is_Error_ptr (unwrap_chain (GqlErr (Some 0))) = Some (GqlErr (Some 0))
   \<and> 0 < nxt muffin_store
   \<and> (\<exists>s'. ErrorPresenter [] Background (Some (GqlErr (Some 0))) muffin_store =
          Inr (Some \<lparr>Message = ''bad input given'', Path = [],
                     Extensions = [''code'' \<mapsto> ''invalid_argument'',
                                   ''error_reason'' \<mapsto> ''muffins_must_be_positive'']\<rparr>,
               [\<lparr>Level = ErrorLevel, LogMessage = ''user entered a bad number of muffins'',
                  LogContext = muffin_fields\<rparr>],
               s'))"
proof -
  have h: "find is_Error_ptr (unwrap_chain (GqlErr (Some 0))) = Some (GqlErr (Some 0))"
    "0 < nxt muffin_store"
    by (simp_all add: muffin_store_def)
  have e: "Error_logLevel (cells muffin_store 0) = errorLevel"
    "msg (cells muffin_store 0) = ''user entered a bad number of muffins''"
    "Path_String (path (cells muffin_store 0)) = []"
    "fields' (cells muffin_store 0) = muffin_fields"
    "Error_toGQLError muffin_store (Some 0) =
       Some \<lparr>Message = ''bad input given'', Path = [],
             Extensions = [''code'' \<mapsto> ''invalid_argument'',
                           ''error_reason'' \<mapsto> ''muffins_must_be_positive'']\<rparr>"
    by (simp_all add: muffin_store_def Error_logLevel_def Path_String_def level_defs
        Error_toGQLError_def Error_clientMessage_def Error_extensions_def
        codes_InvalidArgument_def)
  obtain s' where "ErrorPresenter [] Background (Some (GqlErr (Some 0))) muffin_store =
      Inr (Error_toGQLError muffin_store (Some 0),
           [] @ [\<lparr>Level = logFn_level (Error_logLevel (cells muffin_store 0)),
                   LogMessage = msg (cells muffin_store 0),
                   LogContext =
                     (if Path_String (path (cells muffin_store 0)) \<noteq> []
                      then zap_String ''gql_path'' (Path_String (path (cells muffin_store 0)))
                           # fields' (cells muffin_store 0)
                      else fields' (cells muffin_store 0))\<rparr>],
           s')"
    using presenter_resolved_error [OF h, of "[]" Background] by blast
  then have "ErrorPresenter [] Background (Some (GqlErr (Some 0))) muffin_store =
      Inr (Some \<lparr>Message = ''bad input given'', Path = [],
                 Extensions = [''code'' \<mapsto> ''invalid_argument'',
                               ''error_reason'' \<mapsto> ''muffins_must_be_positive'']\<rparr>,
           [\<lparr>Level = ErrorLevel, LogMessage = ''user entered a bad number of muffins'',
              LogContext = muffin_fields\<rparr>],
           s')"
    by (simp add: e logFn_level_cases(4))
  with h show ?thesis by blast
qed

definition wrapped_typed_nil :: goerr where
  "wrapped_typed_nil =
     Foreign ''*fmt.wrapError'' ''resolving user: '' 1 True (Some (GqlErr None))"

text \<open>
  C4. For the nil input the presenter writes nothing and returns the nil fragment, and
  for every other input whose chain of \<^verbatim>\<open>Unwrap\<close> does not lead to a nil \<^verbatim>\<open>*Error\<close>
  it adds exactly one entry and returns a fragment. But it is not total: for an error
  that is, or wraps, the nil pointer of type \<^verbatim>\<open>*Error\<close>, \<^verbatim>\<open>errors.As\<close> succeeds on the
  type and \<^verbatim>\<open>logError\<close> dereferences the nil pointer, before anything is logged and
  before the nil check of \<^verbatim>\<open>toGQLError\<close> is reached.
\<close>

theorem presenter_typed_nil:
  "ErrorPresenter lg ctx (Some (GqlErr None)) s = Inl NilDereference
   \<and> (errors_As er = Some None \<longrightarrow> ErrorPresenter lg ctx (Some er) s = Inl NilDereference)
   \<and> logError lg None s = Inl NilDereference
   \<and> Error_toGQLError s None = None
   \<and> ErrorPresenter lg ctx None s = Inr (None, lg, s)
   \<and> (errors_As er = None \<or> (\<exists>a < nxt s. errors_As er = Some (Some a)) \<longrightarrow>
        (\<exists>g entry s'. ErrorPresenter lg ctx (Some er) s = Inr (Some g, lg @ [entry], s')))"
proof -
  have 6: "errors_As er = None \<or> (\<exists>a < nxt s. errors_As er = Some (Some a)) \<longrightarrow>
        (\<exists>g entry s'. ErrorPresenter lg ctx (Some er) s = Inr (Some g, lg @ [entry], s'))"
    using ErrorPresenter_other [of er lg ctx s] ErrorPresenter_found [of er _ s lg ctx]
    by blast
  have 1: "ErrorPresenter lg ctx (Some (GqlErr None)) s = Inl NilDereference"
    by (simp add: ErrorPresenter_typed_nil)
  have 3: "logError lg None s = Inl NilDereference"
    by (simp add: logError_def)
  have 4: "Error_toGQLError s None = None"
    by (simp add: Error_toGQLError_def)
  have 5: "ErrorPresenter lg ctx None s = Inr (None, lg, s)"
    by (simp add: ErrorPresenter_def)
  from 1 3 4 5 6 ErrorPresenter_typed_nil [of er lg ctx s] show ?thesis by blast
qed

theorem presenter_typed_nil_witness:
  "errors_As wrapped_typed_nil = Some None
   \<and> ErrorPresenter [] Background (Some wrapped_typed_nil) empty_store = Inl NilDereference
   \<and> ErrorPresenter [] Background (Some (GqlErr None)) empty_store = Inl NilDereference
   \<and> errors_As randomError = None
   \<and> (\<exists>g entry s'. ErrorPresenter [] Background (Some randomError) empty_store
         = Inr (Some g, [entry], s'))"
proof -
  have h: "errors_As wrapped_typed_nil = Some None" "errors_As randomError = None"
    by (simp_all add: wrapped_typed_nil_def randomError_def)
  show ?thesis
    using presenter_typed_nil [of "[]" Background empty_store wrapped_typed_nil]
      presenter_typed_nil [of "[]" Background empty_store randomError] h
    by simp
qed

section \<open>What presenting leaves in the store\<close>

lemma chain_frame:
  "\<exists>s'. chain ds (Some a) s = Inr (Some a, s')
      \<and> code (cells s' a) = code (cells s a)
      \<and> msg (cells s' a) = msg (cells s a)
      \<and> path (cells s' a) = path (cells s a)
      \<and> fields' (cells s' a) = fields' (cells s a)"
proof (induction ds arbitrary: s)
  case Nil
  show ?case by simp
next
  case (Cons d ds)
  obtain s1 where d: "decorate d (Some a) s = Inr (Some a, s1)"
    and f: "code (cells s1 a) = code (cells s a)" "msg (cells s1 a) = msg (cells s a)"
      "path (cells s1 a) = path (cells s a)" "fields' (cells s1 a) = fields' (cells s a)"
    using decorate_frame [of d a s] by blast
  from Cons.IH [of s1] d f show ?case by simp
qed

lemma pathed_err_eval:
  "fst pathed_err = Some 0"
  "nxt (snd pathed_err) = 1"
  "cells (snd pathed_err) 0 =
     \<lparr>code = codes_InvalidArgument, msg = ''user entered a bad number of muffins'',
      path = [PathName ''user'', PathIndex 3, PathName ''name''], level = unsetLevel,
      clientMsg = [], fields' = [zap_Int ''muffin_count'' (- 123)], errorID = []\<rparr>"
  by (simp_all add: pathed_err_def InvalidArgument_def New_def alloc_def empty_store_def)

lemma pathed_err_path:
  "Path_String [PathName ''user'', PathIndex 3, PathName ''name''] = ''user[3].name''"
  by code_simp

lemma show_int_42: "show_int 42 = ''42''"
  by code_simp

text \<open>
  C9, as stated, fails: in a resolver the context has a path, and presenting the Error
  leaves the \<^verbatim>\<open>gql_path\<close> field in front of the fields the handler gave it.
\<close>

theorem presenter_mutates_fields_counterexample:
  "fields' (cells (snd pathed_err) 0) = [zap_Int ''muffin_count'' (- 123)]
   \<and> fields_after
        (ErrorPresenter [] Background (Some (GqlErr (fst pathed_err))) (snd pathed_err)) 0
       = Some [zap_String ''gql_path'' ''user[3].name'', zap_Int ''muffin_count'' (- 123)]
   \<and> fields_after
        (ErrorPresenter [] Background (Some (GqlErr (fst pathed_err))) (snd pathed_err)) 0
       \<noteq> Some (fields' (cells (snd pathed_err) 0))"
proof -
  have as: "errors_As (GqlErr (Some 0)) = Some (Some 0)"
    by simp
  have lt: "0 < nxt (snd pathed_err)"
    by (simp add: pathed_err_eval)
  show ?thesis
    using ErrorPresenter_found [OF as lt, of "[]" Background]
    by (simp add: pathed_err_eval fields_after_def logged_fields_def pathed_err_path)
qed

text \<open>
  C9, amended. Code, internal message and request path of an Error are fixed at
  construction: no chain of decorations changes them, nor the fields. Presenting an
  Error changes none of its code, internal message, request path, level override,
  client message override and error identifier, and changes no other Error that was
  allocated before the call. The sequence of its structured fields is left as the
  handler produced it when the path string is empty; otherwise the presenter stores it
  back with the \<^verbatim>\<open>gql_path\<close> field in front.
\<close>

theorem presenter_frame:
  assumes "errors_As er = Some (Some a)" and "a < nxt s"
  shows "(\<exists>g lg' s'. ErrorPresenter lg ctx (Some er) s = Inr (g, lg', s')
          \<and> code (cells s' a) = code (cells s a)
          \<and> msg (cells s' a) = msg (cells s a)
          \<and> path (cells s' a) = path (cells s a)
          \<and> level (cells s' a) = level (cells s a)
          \<and> clientMsg (cells s' a) = clientMsg (cells s a)
          \<and> errorID (cells s' a) = errorID (cells s a)
          \<and> fields' (cells s' a) =
              (if Path_String (path (cells s a)) = [] then fields' (cells s a)
               else zap_String ''gql_path'' (Path_String (path (cells s a)))
                    # fields' (cells s a))
          \<and> (\<forall>b < nxt s. b \<noteq> a \<longrightarrow> cells s' b = cells s b))
     \<and> (\<exists>s'. chain ds (Some a) s = Inr (Some a, s')
          \<and> code (cells s' a) = code (cells s a)
          \<and> msg (cells s' a) = msg (cells s a)
          \<and> path (cells s' a) = path (cells s a)
          \<and> fields' (cells s' a) = fields' (cells s a))"
proof -
  have "\<exists>g lg' s'. ErrorPresenter lg ctx (Some er) s = Inr (g, lg', s')
          \<and> code (cells s' a) = code (cells s a)
          \<and> msg (cells s' a) = msg (cells s a)
          \<and> path (cells s' a) = path (cells s a)
          \<and> level (cells s' a) = level (cells s a)
          \<and> clientMsg (cells s' a) = clientMsg (cells s a)
          \<and> errorID (cells s' a) = errorID (cells s a)
          \<and> fields' (cells s' a) =
              (if Path_String (path (cells s a)) = [] then fields' (cells s a)
               else zap_String ''gql_path'' (Path_String (path (cells s a)))
                    # fields' (cells s a))
          \<and> (\<forall>b < nxt s. b \<noteq> a \<longrightarrow> cells s' b = cells s b)"
    using ErrorPresenter_found [OF assms, of lg ctx] assms(2)
    by (simp add: logged_fields_def)
  with chain_frame [of ds a s] show ?thesis by blast
qed

theorem presenter_frame_witness:
  "errors_As (GqlErr (Some 0)) = Some (Some 0)
   \<and> 0 < nxt (snd pathed_err)
   \<and> (\<exists>g lg' s'.
         ErrorPresenter [] Background (Some (GqlErr (Some 0))) (snd pathed_err)
           = Inr (g, lg', s')
         \<and> code (cells s' 0) = codes_InvalidArgument
         \<and> msg (cells s' 0) = ''user entered a bad number of muffins''
         \<and> path (cells s' 0) = [PathName ''user'', PathIndex 3, PathName ''name'']
         \<and> fields' (cells s' 0)
             = [zap_String ''gql_path'' ''user[3].name'', zap_Int ''muffin_count'' (- 123)])"
proof -
  have as: "errors_As (GqlErr (Some 0)) = Some (Some 0)"
    by simp
  have lt: "0 < nxt (snd pathed_err)"
    by (simp add: pathed_err_eval)
  show ?thesis
    using presenter_frame [OF as lt, of "[]" Background "[]"] lt
    by (simp add: pathed_err_eval pathed_err_path) blast
qed

section \<open>Recovering from a panic\<close>

lemma Key_zap_Any: "Key (zap_Any k v) = k"
  by (cases v) (simp_all add: zap_String_def zap_Int_def zap_NamedError_def zap_Reflect_def)

lemma RecoverFunc_eval:
  "RecoverFunc stack ctx v s =
     Inr (GqlErr (Some (nxt s)),
          s\<lparr>cells := (cells s)(nxt s :=
               \<lparr>code = codes_Internal, msg = stack, path = graphql_GetPath ctx,
                level = panicLevel, clientMsg = [], fields' = [zap_Any ''recover'' v],
                errorID = []\<rparr>),
            nxt := Suc (nxt s)\<rparr>)"
  by (simp add: RecoverFunc_def Internal_def New_def alloc_def AtPanic_def set_level_def)

text \<open>
  C10, as stated, fails: the field is built by \<^verbatim>\<open>zap.Any\<close>, which keeps the recovered
  value under its own type. After \<^verbatim>\<open>panic(42)\<close> the field \<^verbatim>\<open>recover\<close> is an integer
  field; it holds no string.
\<close>

theorem recover_field_counterexample:
  "RecoverFunc ''goroutine 1 [running]:'' Background (VInt 42) empty_store =
     Inr (GqlErr (Some 0),
          empty_store\<lparr>cells := (cells empty_store)(0 :=
               \<lparr>code = ''internal'', msg = ''goroutine 1 [running]:'', path = [],
                level = panicLevel, clientMsg = [],
                fields' = [\<lparr>Key = ''recover'', Type = Int64Type, Integer = 42,
                             String = [], Interface = VNil\<rparr>],
                errorID = []\<rparr>),
            nxt := 1\<rparr>)
   \<and> show_int 42 = ''42''
   \<and> String (zap_Any ''recover'' (VInt 42)) \<noteq> show_int 42
   \<and> Type (zap_Any ''recover'' (VInt 42)) \<noteq> StringType"
  by (simp add: RecoverFunc_eval empty_store_def zap_Int_def codes_Internal_def show_int_42)

text \<open>
  C10, amended. For every request context and recovered value, \<^verbatim>\<open>RecoverFunc\<close>
  returns a newly allocated Error with the code \<^verbatim>\<open>Internal\<close>, whose internal message is
  the captured stack trace, whose path is that of the context, whose level override and
  resolved severity are panic, and whose fields are the one field with the key
  \<^verbatim>\<open>recover\<close> that \<^verbatim>\<open>zap.Any\<close> builds from the recovered value: a string field
  holding the value when the value is a string, and otherwise a field of the value's own
  kind (an integer field, an error field, a reflected field). No other Error is changed.
\<close>

theorem RecoverFunc_result:
  "\<exists>s'. RecoverFunc stack ctx v s = Inr (GqlErr (Some (nxt s)), s')
      \<and> nxt s' = Suc (nxt s)
      \<and> (\<forall>b. b \<noteq> nxt s \<longrightarrow> cells s' b = cells s b)
      \<and> code (cells s' (nxt s)) = codes_Internal
      \<and> msg (cells s' (nxt s)) = stack
      \<and> path (cells s' (nxt s)) = graphql_GetPath ctx
      \<and> level (cells s' (nxt s)) = panicLevel
      \<and> logLevel_at s' (Some (nxt s)) = Inr panicLevel
      \<and> logFn_level panicLevel = DPanicLevel
      \<and> fields' (cells s' (nxt s)) = [zap_Any ''recover'' v]
      \<and> Key (zap_Any ''recover'' v) = ''recover''
      \<and> (v = VString t \<longrightarrow>
           zap_Any ''recover'' v = \<lparr>Key = ''recover'', Type = StringType, Integer = 0,
                                     String = t, Interface = VNil\<rparr>)
      \<and> (v = VInt n \<longrightarrow>
           zap_Any ''recover'' v = \<lparr>Key = ''recover'', Type = Int64Type, Integer = n,
                                     String = [], Interface = VNil\<rparr>)
      \<and> (v = VError c \<longrightarrow>
           zap_Any ''recover'' v = \<lparr>Key = ''recover'', Type = ErrorType, Integer = 0,
                                     String = [], Interface = VError c\<rparr>)
      \<and> (v = VNil \<or> v = VOther ty r \<longrightarrow>
           zap_Any ''recover'' v = \<lparr>Key = ''recover'', Type = ReflectType, Integer = 0,
                                     String = [], Interface = v\<rparr>)"
  by (auto simp: RecoverFunc_eval logLevel_at_def Error_logLevel_def level_defs
      logFn_level_def Key_zap_Any zap_String_def zap_Int_def zap_NamedError_def
      zap_Reflect_def)

theorem RecoverFunc_result_witness:
  "\<exists>s'. RecoverFunc ''goroutine 1 [running]:'' Background (VString ''Panic! At The Disco'')
           empty_store = Inr (GqlErr (Some 0), s')
      \<and> code (cells s' 0) = ''internal''
      \<and> msg (cells s' 0) = ''goroutine 1 [running]:''
      \<and> logLevel_at s' (Some 0) = Inr panicLevel
      \<and> fields' (cells s' 0) = [\<lparr>Key = ''recover'', Type = StringType, Integer = 0,
                                   String = ''Panic! At The Disco'', Interface = VNil\<rparr>]"
  using RecoverFunc_result [of "''goroutine 1 [running]:''" Background "VString ''Panic! At The Disco''"
      empty_store "''Panic! At The Disco''"]
  by (simp add: empty_store_def codes_Internal_def zap_String_def) blast

end
